theory Spec2Isabelle
  imports Main "HOL-Library.Word" "HOL-Library.Log_Nat"
begin

unbundle bit_operations_syntax

section \<open>WANPTEK power supply controller and SCPI front end\<close>

text \<open>
  A shallow embedding of \<^verbatim>\<open>wanptek_controller.py\<close> (class \<^verbatim>\<open>WanptekPowerSupply\<close>) and of
  the text protocol of \<^verbatim>\<open>wanptek_webapp.py\<close> (classes \<^verbatim>\<open>SCPICommandProcessor\<close> and
  \<^verbatim>\<open>SCPIServer\<close>). Python exceptions are values of type \<open>error\<close>, a call that may raise
  returns \<open>error + 'a\<close>, and the serial link is an explicit value that every operation
  takes and returns.
\<close>

subsection \<open>Bytes, exceptions and \<^verbatim>\<open>struct\<close>\<close>

type_synonym byte = "8 word"

text \<open>
  The exceptions the controller raises. The source raises plain \<^verbatim>\<open>Exception\<close> and
  \<^verbatim>\<open>ValueError\<close> objects that differ by message only; one constructor stands for each
  \<^verbatim>\<open>raise\<close> statement and for each library failure that the modelled code can meet.
\<close>

datatype error =
    NotConnected                \<comment> \<open>\<^verbatim>\<open>Exception("Device not connected")\<close>\<close>
  | LinkTimeout nat             \<comment> \<open>\<^verbatim>\<open>Exception("Timeout: received only n bytes")\<close>\<close>
  | ChecksumMismatch int int    \<comment> \<open>\<^verbatim>\<open>Exception("CRC verification failed: expected c, got r")\<close>\<close>
  | MalformedResponse nat       \<comment> \<open>\<^verbatim>\<open>Exception("Invalid response length: expected 21, got n")\<close>\<close>
  | VoltageExceedsMax           \<comment> \<open>\<^verbatim>\<open>ValueError("Voltage ...V exceeds maximum ...V")\<close>\<close>
  | CurrentExceedsMax           \<comment> \<open>\<^verbatim>\<open>ValueError("Current ...A exceeds maximum ...A")\<close>\<close>
  | NegativeSetting             \<comment> \<open>\<^verbatim>\<open>ValueError("Voltage and current must be non-negative")\<close>\<close>
  | StructError                 \<comment> \<open>\<^verbatim>\<open>struct.error\<close>: value out of range or wrong buffer size\<close>
  | FloatToIntError             \<comment> \<open>\<^verbatim>\<open>int(x)\<close> for a NaN or an infinity\<close>

text \<open>
  \<^verbatim>\<open>struct.pack('B', v)\<close> and \<^verbatim>\<open>struct.pack('<H', v)\<close> / \<^verbatim>\<open>struct.pack('>H', v)\<close>: the value
  must fit, otherwise \<^verbatim>\<open>struct.error\<close>. The flag of \<open>struct_pack_H\<close> is \<open>True\<close> for \<^verbatim>\<open><\<close>
  (little-endian) and \<open>False\<close> for \<^verbatim>\<open>>\<close> (big-endian).
\<close>

definition struct_pack_B :: "int \<Rightarrow> error + byte list" where
  "struct_pack_B v = (if 0 \<le> v \<and> v \<le> 255 then Inr [word_of_int v] else Inl StructError)"

definition struct_pack_H :: "bool \<Rightarrow> int \<Rightarrow> error + byte list" where
  "struct_pack_H le v =
     (if 0 \<le> v \<and> v \<le> 65535
      then Inr (if le then [word_of_int (v mod 256), word_of_int (v div 256)]
                else [word_of_int (v div 256), word_of_int (v mod 256)])
      else Inl StructError)"

text \<open>\<^verbatim>\<open>struct.unpack('<H', data)[0]\<close>: the buffer must hold exactly two bytes.\<close>

definition struct_unpack_H :: "bool \<Rightarrow> byte list \<Rightarrow> error + int" where
  "struct_unpack_H le data =
     (case data of
        [a, b] \<Rightarrow> Inr (if le then uint a + 256 * uint b else 256 * uint a + uint b)
      | _ \<Rightarrow> Inl StructError)"

text \<open>
  The request headers are built with native-mode formats, \<^verbatim>\<open>struct.pack('BBHH', ...)\<close> and
  \<^verbatim>\<open>struct.pack('BBHHB', ...)\<close>. On the little-endian hosts the program runs on (ARM,
  x86) a native \<^verbatim>\<open>H\<close> is laid out low byte first, and neither format needs a pad byte,
  since both \<^verbatim>\<open>H\<close> fields start at even offsets.
\<close>

definition struct_pack_BBHH :: "int \<Rightarrow> int \<Rightarrow> int \<Rightarrow> int \<Rightarrow> error + byte list" where
  "struct_pack_BBHH a f r c =
     (case struct_pack_B a of Inl e \<Rightarrow> Inl e | Inr ba \<Rightarrow>
      case struct_pack_B f of Inl e \<Rightarrow> Inl e | Inr bf \<Rightarrow>
      case struct_pack_H True r of Inl e \<Rightarrow> Inl e | Inr br \<Rightarrow>
      case struct_pack_H True c of Inl e \<Rightarrow> Inl e | Inr bc \<Rightarrow>
      Inr (ba @ bf @ br @ bc))"

definition struct_pack_BBHHB :: "int \<Rightarrow> int \<Rightarrow> int \<Rightarrow> int \<Rightarrow> int \<Rightarrow> error + byte list" where
  "struct_pack_BBHHB a f r c n =
     (case struct_pack_BBHH a f r c of Inl e \<Rightarrow> Inl e | Inr h \<Rightarrow>
      case struct_pack_B n of Inl e \<Rightarrow> Inl e | Inr bn \<Rightarrow>
      Inr (h @ bn))"

definition struct_pack_BB :: "int \<Rightarrow> int \<Rightarrow> error + byte list" where
  "struct_pack_BB a b =
     (case struct_pack_B a of Inl e \<Rightarrow> Inl e | Inr ba \<Rightarrow>
      case struct_pack_B b of Inl e \<Rightarrow> Inl e | Inr bb \<Rightarrow>
      Inr (ba @ bb))"

subsection \<open>Checksum\<close>

text \<open>
  \<^verbatim>\<open>_calculate_crc\<close> works on Python's unbounded integers: the accumulator is an \<open>int\<close>,
  each byte of the data is read as its value \<open>0..255\<close>. \<open>crc_bit_steps n\<close> is the inner
  loop \<^verbatim>\<open>for _ in range(8)\<close> with \<open>n\<close> rounds left.
\<close>

fun crc_bit_steps :: "nat \<Rightarrow> int \<Rightarrow> int" where
  "crc_bit_steps 0 crc = crc"
| "crc_bit_steps (Suc n) crc =
     crc_bit_steps n (if crc AND 1 \<noteq> 0 then drop_bit 1 crc XOR 0xA001 else drop_bit 1 crc)"

fun crc_loop :: "int \<Rightarrow> byte list \<Rightarrow> int" where
  "crc_loop crc [] = crc"
| "crc_loop crc (b # bs) = crc_loop (crc_bit_steps 8 (crc XOR uint b)) bs"

definition calculate_crc :: "byte list \<Rightarrow> int" where
  "calculate_crc data = crc_loop 0xFFFF data"

text \<open>
  The reference checksum, written from the specification's words and not from the code:
  a 16-bit accumulator that starts at \<open>0xFFFF\<close>; every input byte is XORed into it and
  then eight single-bit steps follow, each shifting the accumulator right by one bit and
  XORing \<open>0xA001\<close> in exactly when the bit shifted out was 1.
\<close>

definition ref_shift :: "16 word \<Rightarrow> 16 word" where
  "ref_shift acc = (if bit acc 0 then drop_bit 1 acc XOR 0xA001 else drop_bit 1 acc)"

definition ref_byte :: "16 word \<Rightarrow> byte \<Rightarrow> 16 word" where
  "ref_byte acc b = (ref_shift ^^ 8) (acc XOR ucast b)"

definition checksum_ref :: "byte list \<Rightarrow> 16 word" where
  "checksum_ref bs = foldl ref_byte 0xFFFF bs"

subsection \<open>Floating-point values\<close>

text \<open>
  Voltages and currents are Python floats (IEEE 754 binary64). A finite float is
  represented by the rational number it denotes (the sign of a zero is not kept: no
  modelled operation tells the two zeros apart). \<open>fl\<close> rounds a rational to the nearest
  binary64 value, ties to even, which is how the hardware rounds the exact result of one
  multiplication or division: the result is \<open>m * 2\<^sup>e\<close> with an integer \<open>m\<close> of at most 53
  bits, the exponent \<open>e\<close> is 52 below the exponent of the argument but not below \<open>-1074\<close>
  (gradual underflow), and a result beyond the largest finite value \<open>(2\<^sup>5\<^sup>3 - 1) * 2\<^sup>9\<^sup>7\<^sup>1\<close> is
  an infinity.
\<close>

datatype pyfloat = Fin rat | PInf | NInf | NaN

definition pow2 :: "int \<Rightarrow> rat" where
  "pow2 e = (if 0 \<le> e then 2 ^ nat e else 1 / 2 ^ nat (- e))"

definition floor_log2 :: "rat \<Rightarrow> int" where
  \<comment> \<open>\<open>\<lfloor>log\<^sub>2 x\<rfloor>\<close> for \<open>x > 0\<close>, from the bit lengths of numerator and denominator\<close>
  "floor_log2 x =
     (let (p, q) = quotient_of x; k = bitlen p - bitlen q
      in if pow2 k \<le> x then k else k - 1)"

definition round_half_even :: "rat \<Rightarrow> int" where
  "round_half_even x =
     (let f = \<lfloor>x\<rfloor>; d = x - of_int f
      in if d < 1 / 2 then f else if 1 / 2 < d then f + 1 else if even f then f else f + 1)"

definition fl :: "rat \<Rightarrow> pyfloat" where
  "fl x =
     (if x = 0 then Fin 0
      else let a = \<bar>x\<bar>;
               e = max (floor_log2 a - 52) (- 1074);
               m = round_half_even (a / pow2 e)
           in if 971 < e \<or> (e = 971 \<and> 2 ^ 53 \<le> m) then (if 0 < x then PInf else NInf)
              else Fin ((if 0 < x then 1 else - 1) * (of_int m * pow2 e)))"

text \<open>
  \<^verbatim>\<open>a / b\<close> on two Python ints (true division, correctly rounded), used only with a
  divisor \<^verbatim>\<open>10 ** places\<close>, which is never zero.
\<close>

definition int_truediv :: "int \<Rightarrow> int \<Rightarrow> pyfloat" where
  "int_truediv a b = fl (of_int a / of_int b)"

text \<open>\<^verbatim>\<open>x * y\<close> on floats.\<close>

fun float_mul :: "pyfloat \<Rightarrow> pyfloat \<Rightarrow> pyfloat" where
  "float_mul (Fin a) (Fin b) = fl (a * b)"
| "float_mul NaN _ = NaN"
| "float_mul _ NaN = NaN"
| "float_mul (Fin a) PInf = (if a = 0 then NaN else if 0 < a then PInf else NInf)"
| "float_mul (Fin a) NInf = (if a = 0 then NaN else if 0 < a then NInf else PInf)"
| "float_mul PInf (Fin b) = (if b = 0 then NaN else if 0 < b then PInf else NInf)"
| "float_mul NInf (Fin b) = (if b = 0 then NaN else if 0 < b then NInf else PInf)"
| "float_mul PInf PInf = PInf"
| "float_mul PInf NInf = NInf"
| "float_mul NInf PInf = NInf"
| "float_mul NInf NInf = PInf"

text \<open>
  \<^verbatim>\<open>x * n\<close> for a float \<open>x\<close> and an int \<open>n\<close>: the int is converted to the nearest float
  first. (Python raises \<^verbatim>\<open>OverflowError\<close> for an int beyond the float range; the only
  ints multiplied here are \<^verbatim>\<open>10 ** places\<close>.)
\<close>

definition float_mul_int :: "pyfloat \<Rightarrow> int \<Rightarrow> pyfloat" where
  "float_mul_int x n = float_mul x (fl (of_int n))"

text \<open>The comparisons \<^verbatim>\<open>x > y\<close> and \<^verbatim>\<open>x < y\<close>: false whenever a NaN is involved.\<close>

fun float_gt :: "pyfloat \<Rightarrow> pyfloat \<Rightarrow> bool" where
  "float_gt NaN _ = False"
| "float_gt _ NaN = False"
| "float_gt (Fin a) (Fin b) = (b < a)"
| "float_gt PInf PInf = False"
| "float_gt PInf _ = True"
| "float_gt NInf _ = False"
| "float_gt (Fin a) PInf = False"
| "float_gt (Fin a) NInf = True"

definition float_lt :: "pyfloat \<Rightarrow> pyfloat \<Rightarrow> bool" where
  "float_lt x y = float_gt y x"

text \<open>\<^verbatim>\<open>int(x)\<close>: truncation towards zero; a NaN or an infinity raises.\<close>

fun py_int :: "pyfloat \<Rightarrow> error + int" where
  "py_int (Fin r) = Inr (if 0 \<le> r then \<lfloor>r\<rfloor> else \<lceil>r\<rceil>)"
| "py_int _ = Inl FloatToIntError"

subsection \<open>Session and serial link\<close>

text \<open>
  The attributes of a \<^verbatim>\<open>WanptekPowerSupply\<close> object that the modelled methods read.
  \<open>serial_open\<close> stands for \<^verbatim>\<open>self.serial and self.serial.is_open\<close>.
\<close>

record session =
  slave_addr :: int
  connected :: bool
  serial_open :: bool
  voltage_decimal_places :: nat
  current_decimal_places :: nat
  max_voltage :: pyfloat
  max_current :: pyfloat
  little_endian :: bool

text \<open>
  The serial port. \<open>tx\<close> lists the frames written so far, oldest first. \<open>rx\<close> is the
  device's side of the coming exchanges: for each request still to be written, the
  chunks that the calls \<^verbatim>\<open>self.serial.read(1024)\<close> of that exchange return, in order,
  for as long as the loop's clock test \<^verbatim>\<open>time.time() - start_time < self.timeout\<close> holds.
  The real clock is not modelled: when the chunks of an exchange are used up, the
  deadline has passed. \<^verbatim>\<open>reset_input_buffer\<close> discards whatever an earlier exchange left
  unread, so every exchange starts with its own chunks.
\<close>

record link =
  rx :: "byte list list list"
  tx :: "byte list list"

text \<open>
  The receive loop of \<^verbatim>\<open>_send_command\<close>:
  \<^verbatim>\<open>while len(response) < 3 and (time.time() - start_time) < self.timeout\<close>.
\<close>

fun read_loop :: "byte list \<Rightarrow> byte list list \<Rightarrow> byte list" where
  "read_loop response [] = response"
| "read_loop response (chunk # chunks) =
     (if length response < 3 then read_loop (response @ chunk) chunks else response)"

definition next_chunks :: "link \<Rightarrow> byte list list" where
  "next_chunks w = (case rx w of [] \<Rightarrow> [] | cs # _ \<Rightarrow> cs)"

definition pack_word :: "session \<Rightarrow> int \<Rightarrow> error + byte list" where
  "pack_word s v = (if little_endian s then struct_pack_H True v else struct_pack_H False v)"

definition unpack_word :: "session \<Rightarrow> byte list \<Rightarrow> error + int" where
  "unpack_word s data =
     (if little_endian s then struct_unpack_H True data else struct_unpack_H False data)"

definition send_command :: "session \<Rightarrow> byte list \<Rightarrow> link \<Rightarrow> (error + byte list) \<times> link" where
  "send_command s command w =
     (if \<not> connected s \<or> \<not> serial_open s then (Inl NotConnected, w)
      else case struct_pack_H True (calculate_crc command) of
          Inl e \<Rightarrow> (Inl e, w)
        | Inr crc_bytes \<Rightarrow>
            let full_command = command @ crc_bytes;
                w' = w\<lparr>rx := tl (rx w), tx := tx w @ [full_command]\<rparr>;
                response = read_loop [] (next_chunks w)
            in if length response < 3 then (Inl (LinkTimeout (length response)), w')
               else let data_part = take (length response - 2) response
                    in case struct_unpack_H True (drop (length response - 2) response) of
                         Inl e \<Rightarrow> (Inl e, w')
                       | Inr received_crc \<Rightarrow>
                           let calculated_crc = calculate_crc data_part
                           in if received_crc \<noteq> calculated_crc
                              then (Inl (ChecksumMismatch calculated_crc received_crc), w')
                              else (Inr response, w'))"

definition read_raw_status :: "session \<Rightarrow> link \<Rightarrow> (error + byte list) \<times> link" where
  "read_raw_status s w =
     (case struct_pack_BBHH (slave_addr s) 0x03 0x0000 0x0008 of
        Inl e \<Rightarrow> (Inl e, w)
      | Inr command \<Rightarrow>
          (case send_command s command w of
             (Inl e, w') \<Rightarrow> (Inl e, w')
           | (Inr response, w') \<Rightarrow>
               if length response < 21 then (Inl (MalformedResponse (length response)), w')
               else (Inr response, w')))"

subsection \<open>Status and output control\<close>

text \<open>
  The dictionary that \<^verbatim>\<open>read_status\<close> returns, one field per key that depends on the
  response (the keys that only copy attributes of the session are left out). The keys
  carry the prefix \<open>st_\<close> because \<open>power_on\<close>, \<open>set_voltage\<close> and \<open>set_current\<close> are also
  methods of the class.
\<close>

record status =
  st_power_on :: bool
  st_ocp_enabled :: bool
  st_keyboard_locked :: bool
  st_constant_current_mode :: bool
  st_alarm_active :: bool
  st_real_voltage :: pyfloat
  st_real_current :: pyfloat
  st_set_voltage :: pyfloat
  st_set_current :: pyfloat
  st_real_power :: pyfloat
  st_set_power :: pyfloat

text \<open>
  \<open>slice i j xs\<close> is Python's \<^verbatim>\<open>xs[i:j]\<close> for \<open>0 \<le> i \<le> j\<close>. \<open>decode_status\<close> is the body of
  \<^verbatim>\<open>read_status\<close> after the response has arrived; the response has at least 21 bytes
  there, so \<^verbatim>\<open>data = response[3:19]\<close> has 16 and every index and slice is in range.
\<close>

definition slice :: "nat \<Rightarrow> nat \<Rightarrow> 'a list \<Rightarrow> 'a list" where
  "slice i j xs = take (j - i) (drop i xs)"

definition decode_status :: "session \<Rightarrow> byte list \<Rightarrow> error + status" where
  "decode_status s response =
     (let data = slice 3 19 response;
          status_byte = data ! 0
      in case unpack_word s (slice 4 6 data) of Inl e \<Rightarrow> Inl e | Inr real_voltage_raw \<Rightarrow>
         case unpack_word s (slice 6 8 data) of Inl e \<Rightarrow> Inl e | Inr real_current_raw \<Rightarrow>
         case unpack_word s (slice 8 10 data) of Inl e \<Rightarrow> Inl e | Inr set_voltage_raw \<Rightarrow>
         case unpack_word s (slice 10 12 data) of Inl e \<Rightarrow> Inl e | Inr set_current_raw \<Rightarrow>
         let voltage_divisor = 10 ^ voltage_decimal_places s;
             current_divisor = 10 ^ current_decimal_places s
         in Inr \<lparr>st_power_on = (status_byte AND 0x01 \<noteq> 0),
                 st_ocp_enabled = (status_byte AND 0x02 \<noteq> 0),
                 st_keyboard_locked = (status_byte AND 0x04 \<noteq> 0),
                 st_constant_current_mode = (status_byte AND 0x10 \<noteq> 0),
                 st_alarm_active = (status_byte AND 0x20 \<noteq> 0),
                 st_real_voltage = int_truediv real_voltage_raw voltage_divisor,
                 st_real_current = int_truediv real_current_raw current_divisor,
                 st_set_voltage = int_truediv set_voltage_raw voltage_divisor,
                 st_set_current = int_truediv set_current_raw current_divisor,
                 st_real_power = float_mul (int_truediv real_voltage_raw voltage_divisor)
                                           (int_truediv real_current_raw current_divisor),
                 st_set_power = float_mul (int_truediv set_voltage_raw voltage_divisor)
                                          (int_truediv set_current_raw current_divisor)\<rparr>)"

definition read_status :: "session \<Rightarrow> link \<Rightarrow> (error + status) \<times> link" where
  "read_status s w =
     (case read_raw_status s w of
        (Inl e, w') \<Rightarrow> (Inl e, w')
      | (Inr response, w') \<Rightarrow> (decode_status s response, w'))"

text \<open>
  \<open>control_byte_of\<close> is the block \<^verbatim>\<open>control_byte = 0; if target_power: control_byte |= 0x01; ...\<close>.
  \<open>write_frame\<close> is everything of \<^verbatim>\<open>set_output\<close> from \<^verbatim>\<open># Convert to raw values\<close> down to
  \<^verbatim>\<open>full_command = command + data\<close>: it runs outside the \<^verbatim>\<open>try\<close>, so each of its failures
  propagates.
\<close>

definition control_byte_of :: "bool \<Rightarrow> bool \<Rightarrow> bool \<Rightarrow> int" where
  "control_byte_of target_power target_ocp target_lock =
     ((0 OR (if target_power then 0x01 else 0)) OR (if target_ocp then 0x02 else 0))
       OR (if target_lock then 0x04 else 0)"

definition write_frame ::
  "session \<Rightarrow> pyfloat \<Rightarrow> pyfloat \<Rightarrow> bool \<Rightarrow> bool \<Rightarrow> bool \<Rightarrow> error + byte list" where
  "write_frame s target_voltage target_current target_power target_ocp target_lock =
     (let voltage_divisor = 10 ^ voltage_decimal_places s;
          current_divisor = 10 ^ current_decimal_places s
      in case py_int (float_mul_int target_voltage voltage_divisor) of
           Inl e \<Rightarrow> Inl e | Inr voltage_raw \<Rightarrow>
         case py_int (float_mul_int target_current current_divisor) of
           Inl e \<Rightarrow> Inl e | Inr current_raw \<Rightarrow>
         let control_byte = control_byte_of target_power target_ocp target_lock
         in case struct_pack_BBHHB (slave_addr s) 0x10 0x0000 0x0003 0x06 of
              Inl e \<Rightarrow> Inl e | Inr command \<Rightarrow>
            case struct_pack_BB control_byte 0x00 of Inl e \<Rightarrow> Inl e | Inr cb \<Rightarrow>
            case pack_word s voltage_raw of Inl e \<Rightarrow> Inl e | Inr vb \<Rightarrow>
            case pack_word s current_raw of Inl e \<Rightarrow> Inl e | Inr ib \<Rightarrow>
            Inr (command @ (cb @ vb @ ib)))"

text \<open>
  \<^verbatim>\<open>set_output\<close>. An argument left at \<^verbatim>\<open>None\<close> is \<open>None\<close> here. The result \<open>Inr b\<close> is the
  returned bool, \<open>Inl e\<close> an exception that leaves the method.
\<close>

definition set_output ::
  "session \<Rightarrow> pyfloat option \<Rightarrow> pyfloat option \<Rightarrow> bool option \<Rightarrow> bool option \<Rightarrow> bool option
     \<Rightarrow> link \<Rightarrow> (error + bool) \<times> link" where
  "set_output s voltage current power_on ocp_enable keyboard_lock w =
     (case read_status s w of
        (Inl e, w1) \<Rightarrow> (Inl e, w1)
      | (Inr current_status, w1) \<Rightarrow>
          let target_voltage = (case voltage of Some v \<Rightarrow> v | None \<Rightarrow> st_set_voltage current_status);
              target_current = (case current of Some c \<Rightarrow> c | None \<Rightarrow> st_set_current current_status);
              target_power = (case power_on of Some p \<Rightarrow> p | None \<Rightarrow> st_power_on current_status);
              target_ocp = (case ocp_enable of Some p \<Rightarrow> p | None \<Rightarrow> st_ocp_enabled current_status);
              target_lock = (case keyboard_lock of Some p \<Rightarrow> p
                             | None \<Rightarrow> st_keyboard_locked current_status)
          in if float_gt target_voltage (max_voltage s) then (Inl VoltageExceedsMax, w1)
             else if float_gt target_current (max_current s) then (Inl CurrentExceedsMax, w1)
             else if float_lt target_voltage (Fin 0) \<or> float_lt target_current (Fin 0)
               then (Inl NegativeSetting, w1)
             else case write_frame s target_voltage target_current target_power target_ocp
                         target_lock of
                 Inl e \<Rightarrow> (Inl e, w1)
               | Inr full_command \<Rightarrow>
                   (case send_command s full_command w1 of
                      (Inr response, w2) \<Rightarrow> (Inr (8 \<le> length response), w2)
                    | (Inl e, w2) \<Rightarrow> (Inr False, w2)))"

definition set_voltage :: "session \<Rightarrow> pyfloat \<Rightarrow> link \<Rightarrow> (error + bool) \<times> link" where
  "set_voltage s voltage w = set_output s (Some voltage) None None None None w"

definition set_current :: "session \<Rightarrow> pyfloat \<Rightarrow> link \<Rightarrow> (error + bool) \<times> link" where
  "set_current s current w = set_output s None (Some current) None None None w"

subsection \<open>Command processor\<close>

text \<open>
  Strings are lists of characters, and the model covers ASCII text only: a character
  stands for the code point of its value, and \<open>isascii\<close> (Python's \<^verbatim>\<open>str.isascii()\<close>) says
  that every code point of a string is below 128. On such strings \<open>upper\<close> is
  \<^verbatim>\<open>str.upper()\<close>, which maps \<open>a..z\<close> to \<open>A..Z\<close> and leaves the other ASCII characters alone,
  and \<open>strip\<close> is \<^verbatim>\<open>str.strip()\<close>, which removes the ASCII white space at both ends. What
  Python does with code points from 128 on (\<^verbatim>\<open>'\xdf'.upper()\<close> is \<^verbatim>\<open>'SS'\<close>, \<^verbatim>\<open>strip\<close> also removes
  U+0085 and U+00A0) is not modelled: \<open>upper\<close> and \<open>strip\<close> say nothing about the code on a
  string that is not ASCII, and a statement about them on an arbitrary line assumes
  \<open>isascii\<close>.
\<close>

definition isascii :: "string \<Rightarrow> bool" where
  "isascii s = list_all (\<lambda>c. (of_char c :: nat) < 128) s"

definition upper_char :: "char \<Rightarrow> char" where
  "upper_char c =
     (let n = (of_char c :: nat) in if 97 \<le> n \<and> n \<le> 122 then char_of (n - 32) else c)"

definition upper :: "string \<Rightarrow> string" where
  "upper s = map upper_char s"

definition is_space :: "char \<Rightarrow> bool" where
  "is_space c = (let n = (of_char c :: nat) in (9 \<le> n \<and> n \<le> 13) \<or> (28 \<le> n \<and> n \<le> 32))"

definition strip :: "string \<Rightarrow> string" where
  "strip s = rev (dropWhile is_space (rev (dropWhile is_space s)))"

text \<open>\<^verbatim>\<open>s.split(sep)\<close> for a separator of one character.\<close>

fun split_char :: "char \<Rightarrow> string \<Rightarrow> string list" where
  "split_char sep [] = [[]]"
| "split_char sep (c # cs) =
     (if c = sep then [] # split_char sep cs
      else (case split_char sep cs of [] \<Rightarrow> [[c]] | x # xs \<Rightarrow> (c # x) # xs))"

text \<open>
  \<^verbatim>\<open>s.replace(old, new)\<close>: the occurrences of \<open>old\<close> are found from left to right and do
  not overlap. With an empty \<open>old\<close> Python puts \<open>new\<close> before every character and at the
  end.
\<close>

function replace :: "string \<Rightarrow> string \<Rightarrow> string \<Rightarrow> string" where
  "replace old new [] = (if old = [] then new else [])"
| "replace old new (c # cs) =
     (if old = [] then new @ c # replace old new cs
      else if take (length old) (c # cs) = old
        then new @ replace old new (drop (length old) (c # cs))
      else c # replace old new cs)"
  by pat_completeness auto
termination
  by (relation "measure (\<lambda>(old, new, s). length s)") (auto simp: neq_Nil_conv)

text \<open>\<^verbatim>\<open>old in s\<close>: \<open>old\<close> occurs in \<open>s\<close> as a substring.\<close>

fun contains :: "string \<Rightarrow> string \<Rightarrow> bool" where
  "contains old [] = (old = [])"
| "contains old (c # cs) = (take (length old) (c # cs) = old \<or> contains old cs)"

text \<open>The dictionary \<^verbatim>\<open>abbreviations\<close> of \<^verbatim>\<open>_normalize_command\<close>, in insertion order.\<close>

definition abbreviations :: "(string \<times> string) list" where
  "abbreviations =
     [(''SOUR'', ''SOURce''), (''VOLT'', ''VOLTage''), (''CURR'', ''CURRent''),
      (''MEAS'', ''MEASure''), (''OUTP'', ''OUTPut''), (''STAT'', ''STATe''),
      (''PROT'', ''PROTection''), (''SYST'', ''SYSTem''), (''QUES'', ''QUEStionable''),
      (''OPER'', ''OPERation''), (''COND'', ''CONDition''), (''IMME'', ''IMMediate''),
      (''AMPL'', ''AMPLitude''), (''LEVE'', ''LEVel''), (''TRIP'', ''TRIPped'')]"

fun expand :: "(string \<times> string) list \<Rightarrow> string \<Rightarrow> string" where
  "expand [] command = command"
| "expand ((abbrev, full) # rest) command = expand rest (replace abbrev full command)"

definition normalize_command :: "string \<Rightarrow> string" where
  "normalize_command command = expand abbreviations (upper command)"

definition match_command :: "string \<Rightarrow> string \<Rightarrow> bool" where
  "match_command input_cmd pattern_cmd = (input_cmd = upper pattern_cmd)"

text \<open>The handler methods that the command table names.\<close>

datatype handler =
    H_get_identification | H_reset_device | H_self_test | H_get_error | H_get_version
  | H_set_voltage | H_get_voltage_setting | H_set_current | H_get_current_setting
  | H_measure_voltage | H_measure_current | H_measure_power | H_measure_all
  | H_set_output_state | H_get_output_state | H_set_ocp_state | H_get_ocp_state
  | H_get_current_protection_tripped | H_get_questionable_condition
  | H_get_operation_condition

text \<open>The dictionary \<^verbatim>\<open>self.commands\<close>, in insertion order.\<close>

definition commands :: "(string \<times> handler) list" where
  "commands =
     [(''*IDN?'', H_get_identification),
      (''*RST'', H_reset_device),
      (''*TST?'', H_self_test),
      (''SYSTem:ERRor?'', H_get_error),
      (''SYSTem:VERSion?'', H_get_version),
      (''SOURce:VOLTage'', H_set_voltage),
      (''SOURce:VOLTage?'', H_get_voltage_setting),
      (''SOURce:VOLTage:LEVel:IMMediate:AMPLitude'', H_set_voltage),
      (''VOLTage'', H_set_voltage),
      (''VOLTage?'', H_get_voltage_setting),
      (''SOURce:CURRent'', H_set_current),
      (''SOURce:CURRent?'', H_get_current_setting),
      (''SOURce:CURRent:LEVel:IMMediate:AMPLitude'', H_set_current),
      (''CURRent'', H_set_current),
      (''CURRent?'', H_get_current_setting),
      (''MEASure:VOLTage?'', H_measure_voltage),
      (''MEASure:CURRent?'', H_measure_current),
      (''MEASure:POWer?'', H_measure_power),
      (''MEASure:ALL?'', H_measure_all),
      (''OUTPut'', H_set_output_state),
      (''OUTPut?'', H_get_output_state),
      (''OUTPut:STATe'', H_set_output_state),
      (''OUTPut:STATe?'', H_get_output_state),
      (''SOURce:CURRent:PROTection:STATe'', H_set_ocp_state),
      (''SOURce:CURRent:PROTection:STATe?'', H_get_ocp_state),
      (''SOURce:CURRent:PROTection:TRIPped?'', H_get_current_protection_tripped),
      (''STATus:QUEStionable:CONDition?'', H_get_questionable_condition),
      (''STATus:OPERation:CONDition?'', H_get_operation_condition)]"

text \<open>
  The search \<^verbatim>\<open>for cmd_pattern, cmd_handler in self.commands.items()\<close> with its
  \<^verbatim>\<open>break\<close> at the first match.
\<close>

fun find_handler :: "string \<Rightarrow> (string \<times> handler) list \<Rightarrow> handler option" where
  "find_handler cmd_name [] = None"
| "find_handler cmd_name ((cmd_pattern, cmd_handler) # rest) =
     (if match_command cmd_name cmd_pattern then Some cmd_handler
      else find_handler cmd_name rest)"

text \<open>
  \<^verbatim>\<open>_process_single_command\<close>. What a handler does with the device is a parameter:
  \<open>run h param w\<close> is the reply that the call \<^verbatim>\<open>handler(param)\<close> (or \<^verbatim>\<open>handler()\<close> for
  \<open>param = None\<close>) produces in state \<open>w\<close>, together with the state it leaves. A call that
  raises is caught by the method's \<^verbatim>\<open>except Exception\<close> and turned into the reply
  \<^verbatim>\<open>"ERROR: ..."\<close>, so the reply is a string in every case.
\<close>

type_synonym 'w runner = "handler \<Rightarrow> string option \<Rightarrow> 'w \<Rightarrow> string \<times> 'w"

definition process_single_command :: "'w runner \<Rightarrow> string \<Rightarrow> 'w \<Rightarrow> string \<times> 'w" where
  "process_single_command run command w =
     (let normalized_cmd = normalize_command command;
          (cmd_name, param) =
             (if CHR '' '' \<in> set normalized_cmd
              then (takeWhile (\<lambda>c. c \<noteq> CHR '' '') normalized_cmd,
                    Some (tl (dropWhile (\<lambda>c. c \<noteq> CHR '' '') normalized_cmd)))
              else (normalized_cmd, None))
      in case find_handler cmd_name commands of
           Some handler \<Rightarrow> run handler param w
         | None \<Rightarrow> (''ERROR: Unknown command'', w))"

text \<open>The loop \<^verbatim>\<open>for cmd in commands\<close> of \<^verbatim>\<open>process_command\<close>, collecting \<^verbatim>\<open>responses\<close>.\<close>

fun process_each :: "'w runner \<Rightarrow> string list \<Rightarrow> 'w \<Rightarrow> string list \<times> 'w" where
  "process_each run [] w = ([], w)"
| "process_each run (cmd # cmds) w =
     (let cmd' = strip cmd
      in if cmd' = [] then process_each run cmds w
         else (case process_single_command run cmd' w of
                 (response, w') \<Rightarrow>
                   (case process_each run cmds w' of
                      (responses, w'') \<Rightarrow> (response # responses, w''))))"

text \<open>\<^verbatim>\<open>'\n'.join(responses)\<close>.\<close>

fun join_lines :: "string list \<Rightarrow> string" where
  "join_lines [] = []"
| "join_lines [r] = r"
| "join_lines (r # rs) = r @ [CHR 0x0A] @ join_lines rs"

definition process_command :: "'w runner \<Rightarrow> string \<Rightarrow> 'w \<Rightarrow> string \<times> 'w" where
  "process_command run command_line w =
     (let command_line' = strip command_line
      in if command_line' = [] then ([], w)
         else (case process_each run (split_char CHR '';'' command_line') w of
                 (responses, w') \<Rightarrow> (if responses \<noteq> [] then join_lines responses else [], w')))"

subsection \<open>Connection server\<close>

text \<open>
  One client session of \<^verbatim>\<open>_handle_client\<close>. The client's side is the list of what the
  successive passes of the outer loop \<^verbatim>\<open>while self.running\<close> meet: \<open>Stopped\<close> when the
  test finds \<^verbatim>\<open>self.running\<close> false, \<open>Data d\<close> when \<^verbatim>\<open>recv\<close> returns the text \<open>d\<close> (the
  empty text: the peer has closed), \<open>RecvTimeout\<close> for \<^verbatim>\<open>socket.timeout\<close> and \<open>RecvError\<close>
  for any other exception. A list that ends stands for a peer that closes. The server's
  side is the list of what it does to the socket.
\<close>

datatype recv_event = Stopped | Data string | RecvTimeout | RecvError

datatype sock_action = Sent string | Closed

text \<open>
  The inner loop \<^verbatim>\<open>while '\n' in buffer\<close>. It returns the buffer, the state and the
  socket actions at the point where the loop is left, by its test or by its \<^verbatim>\<open>break\<close>.
\<close>

function process_lines ::
  "'w runner \<Rightarrow> string \<Rightarrow> 'w \<Rightarrow> sock_action list \<Rightarrow> string \<times> 'w \<times> sock_action list" where
  "process_lines run buffer w out =
     (if CHR 0x0A \<in> set buffer then
        (let line = strip (takeWhile (\<lambda>c. c \<noteq> CHR 0x0A) buffer);
             buffer' = tl (dropWhile (\<lambda>c. c \<noteq> CHR 0x0A) buffer)
         in if upper line = ''QUIT'' \<or> upper line = ''EXIT''
            then (buffer', w, out @ [Sent (''Goodbye'' @ [CHR 0x0A])])
            else if line \<noteq> []
              then (case process_command run line w of
                      (response, w') \<Rightarrow>
                        process_lines run buffer' w'
                          (if response \<noteq> [] then out @ [Sent (response @ [CHR 0x0A])] else out))
            else process_lines run buffer' w out)
      else (buffer, w, out))"
  by pat_completeness auto
termination
proof (relation "measure (\<lambda>(run, buffer, w, out). length buffer)", goal_cases)
  case 1
  show ?case by simp
next
  case (2 run buffer w out line buffer' response w')
  have "dropWhile (\<lambda>c. c \<noteq> CHR 0x0A) buffer \<noteq> []"
    using 2(1) by simp
  then have "length (tl (dropWhile (\<lambda>c. c \<noteq> CHR 0x0A) buffer))
      < length (dropWhile (\<lambda>c. c \<noteq> CHR 0x0A) buffer)"
    by simp
  also have "\<dots> \<le> length buffer"
    by (rule length_dropWhile_le)
  finally show ?case using 2 by simp
next
  case (3 run buffer w out line buffer')
  have "dropWhile (\<lambda>c. c \<noteq> CHR 0x0A) buffer \<noteq> []"
    using 3(1) by simp
  then have "length (tl (dropWhile (\<lambda>c. c \<noteq> CHR 0x0A) buffer))
      < length (dropWhile (\<lambda>c. c \<noteq> CHR 0x0A) buffer)"
    by simp
  also have "\<dots> \<le> length buffer"
    by (rule length_dropWhile_le)
  finally show ?case using 3 by simp
qed

text \<open>The outer loop \<^verbatim>\<open>while self.running\<close>, and the whole of \<^verbatim>\<open>_handle_client\<close>.\<close>

fun client_loop ::
  "'w runner \<Rightarrow> string \<Rightarrow> recv_event list \<Rightarrow> 'w \<Rightarrow> sock_action list \<Rightarrow> 'w \<times> sock_action list" where
  "client_loop run buffer [] w out = (w, out)"
| "client_loop run buffer (Stopped # evs) w out = (w, out)"
| "client_loop run buffer (RecvError # evs) w out = (w, out)"
| "client_loop run buffer (RecvTimeout # evs) w out = client_loop run buffer evs w out"
| "client_loop run buffer (Data d # evs) w out =
     (if d = [] then (w, out)
      else (case process_lines run (buffer @ d) w out of
              (buffer', w', out') \<Rightarrow> client_loop run buffer' evs w' out'))"

definition handle_client :: "'w runner \<Rightarrow> recv_event list \<Rightarrow> 'w \<Rightarrow> 'w \<times> sock_action list" where
  "handle_client run evs w =
     (case client_loop run [] evs w [Sent (''WANPTEK SCPI Server Ready'' @ [CHR 0x0A])] of
        (w', out) \<Rightarrow> (w', out @ [Closed]))"

subsection \<open>Concrete sessions and links\<close>

text \<open>
  A connected session of a 30 V / 5 A unit with two decimal places, at address 0, used
  to run the operations on concrete inputs.
\<close>

definition session0 :: session where
  "session0 = \<lparr>slave_addr = 0, connected = True, serial_open = True,
      voltage_decimal_places = 2, current_decimal_places = 2,
      max_voltage = Fin 30, max_current = Fin 5, little_endian = True\<rparr>"

text \<open>
  What such a unit answers to a status request: address, function code \<open>0x03\<close>, byte
  count 16, the 16 payload bytes (flags 0, 30 V series, 5 A series, output 0 V / 0 A,
  settings 12.00 V and 0.29 A, maxima 30.00 V and 5.00 A, all words low byte first) and
  the checksum of these 19 bytes. \<open>write_ack0\<close> is its 8-byte acknowledgement of a write
  request. \<open>link0\<close> holds one status exchange and one write exchange, each arriving in one
  chunk.
\<close>

definition status_reply0 :: "byte list" where
  "status_reply0 =
     [0x00, 0x03, 0x10,
      0x00, 0x01, 0x03, 0x00, 0x00, 0x00, 0x00, 0x00,
      0xB0, 0x04, 0x1D, 0x00, 0xB8, 0x0B, 0xF4, 0x01,
      0x84, 0xFD]"

definition write_ack0 :: "byte list" where
  "write_ack0 = [0x00, 0x10, 0x00, 0x00, 0x00, 0x03, 0x81, 0xD9]"

definition link0 :: link where
  "link0 = \<lparr>rx = [[status_reply0], [write_ack0]], tx = []\<rparr>"

text \<open>A link on which only the two bytes \<open>00 03\<close> arrive before the deadline.\<close>

definition link_short :: link where
  "link_short = \<lparr>rx = [[[0x00, 0x03]]], tx = []\<rparr>"

text \<open>
  The status that \<^verbatim>\<open>read_status\<close> decodes from \<open>status_reply0\<close>. The current setting is the
  double that \<^verbatim>\<open>29 / 100\<close> evaluates to, the nearest one to 0.29 and a little below it;
  the power setting is the double product of 12.0 and that value.
\<close>

definition status0 :: status where
  "status0 = \<lparr>st_power_on = False, st_ocp_enabled = False, st_keyboard_locked = False,
      st_constant_current_mode = False, st_alarm_active = False,
      st_real_voltage = Fin 0, st_real_current = Fin 0,
      st_set_voltage = Fin 12,
      st_set_current = Fin (5224175567749775 / 18014398509481984),
      st_real_power = Fin 0,
      st_set_power = Fin (3918131675812331 / 1125899906842624)\<rparr>"

text \<open>
  \<open>link1\<close> is \<open>link0\<close> after the status exchange: the request has been written and the
  acknowledgement of a write is still to come. On \<open>link_mute\<close> the unit answers the status
  request and nothing after it.
\<close>

definition link1 :: link where
  "link1 = \<lparr>rx = [[write_ack0]],
             tx = [[0x00, 0x03, 0x00, 0x00, 0x08, 0x00, 0x43, 0xDB]]\<rparr>"

definition link_mute :: link where
  "link_mute = \<lparr>rx = [[status_reply0]], tx = []\<rparr>"

section \<open>Frame codec\<close>

subsection \<open>The checksum against its reference\<close>

lemma uint_drop_bit_one: "uint (drop_bit 1 w) = drop_bit 1 (uint w)" for w :: "16 word"
proof -
  have "uint w < 65536" using uint_lt2p [of w] by simp
  then have "uint w mod 65536 = uint w" by simp
  then show ?thesis by (simp add: unsigned_drop_bit_eq take_bit_eq_mod)
qed

lemma low_bit_uint: "(uint w AND 1 \<noteq> 0) = bit w 0" for w :: "16 word"
  using bit_uint_iff [of w 0] by (simp add: and_one_eq bit_0 mod_2_eq_odd)

lemma crc_step_uint:
  "(if uint w AND 1 \<noteq> 0 then drop_bit 1 (uint w) XOR 0xA001 else drop_bit 1 (uint w))
     = uint (ref_shift w)"
  unfolding low_bit_uint using uint_drop_bit_one [of w]
  by (simp add: ref_shift_def uint_xor)

lemma crc_bit_steps_uint: "crc_bit_steps n (uint w) = uint ((ref_shift ^^ n) w)"
proof (induction n arbitrary: w)
  case 0
  show ?case by simp
next
  case (Suc n)
  have "crc_bit_steps (Suc n) (uint w) = crc_bit_steps n (uint (ref_shift w))"
    using crc_step_uint [of w] by simp
  also have "\<dots> = uint ((ref_shift ^^ n) (ref_shift w))"
    by (rule Suc.IH)
  finally show ?case by (simp add: funpow_swap1)
qed

lemma crc_loop_uint: "crc_loop (uint w) bs = uint (foldl ref_byte w bs)"
proof (induction bs arbitrary: w)
  case Nil
  show ?case by simp
next
  case (Cons b bs)
  have "uint w XOR uint b = uint (w XOR ucast b)"
    by (simp add: uint_xor uint_up_ucast is_up)
  then show ?case
    using Cons.IH [of "ref_byte w b"] crc_bit_steps_uint [of 8 "w XOR ucast b"]
    by (simp add: ref_byte_def)
qed

lemma calculate_crc_uint: "calculate_crc data = uint (checksum_ref data)"
  using crc_loop_uint [of "0xFFFF" data] by (simp add: calculate_crc_def checksum_ref_def)

lemma calculate_crc_range: "0 \<le> calculate_crc data \<and> calculate_crc data \<le> 65535"
proof -
  have "uint (checksum_ref data) < 2 ^ 16"
    using uint_lt2p [of "checksum_ref data"] by simp
  then show ?thesis by (simp add: calculate_crc_uint)
qed

text \<open>
  Claim C5. For every byte sequence, \<^verbatim>\<open>_calculate_crc\<close> returns the value of the reference
  CRC-16 (start at \<open>0xFFFF\<close>; per byte, XOR it in and do eight steps of shift right by one,
  XORing \<open>0xA001\<close> when the bit shifted out was 1). The result is the value of a 16-bit
  word, and as a function of its argument alone it is deterministic and pure.
\<close>

theorem calculate_crc_is_reference:
  "calculate_crc data = uint (checksum_ref data) \<and>
   0 \<le> calculate_crc data \<and> calculate_crc data < 2 ^ 16"
  using calculate_crc_range [of data] by (simp add: calculate_crc_uint)

subsection \<open>Packing and unpacking a register word\<close>

lemma uint_low_byte: "uint (word_of_int (v mod 256) :: byte) = v mod 256"
  by (simp add: uint_word_of_int)

lemma uint_high_byte:
  assumes "0 \<le> v" "v \<le> 65535"
  shows "uint (word_of_int (v div 256) :: byte) = v div 256"
proof -
  have "0 \<le> v div 256" "v div 256 < 256" using assms by auto
  then show ?thesis by (simp add: uint_word_of_int)
qed

lemma struct_H_roundtrip:
  assumes "0 \<le> v" "v \<le> 65535"
  shows "\<exists>bs. struct_pack_H le v = Inr bs \<and> length bs = 2 \<and> struct_unpack_H le bs = Inr v"
  using assms uint_high_byte [OF assms] uint_low_byte [of v]
  by (simp add: struct_pack_H_def struct_unpack_H_def)

text \<open>
  Claim C4. For every value \<open>v\<close> in \<open>0..65535\<close> and for either endianness of the session,
  \<^verbatim>\<open>_pack_word\<close> succeeds with two bytes and \<^verbatim>\<open>_unpack_word\<close> of these bytes, in the same
  session, returns \<open>v\<close>.
\<close>

theorem pack_unpack_roundtrip:
  "0 \<le> v \<Longrightarrow> v \<le> 65535 \<Longrightarrow>
     (\<exists>bs. pack_word s v = Inr bs \<and> length bs = 2 \<and> unpack_word s bs = Inr v)"
  using struct_H_roundtrip [of v True] struct_H_roundtrip [of v False]
  by (simp add: pack_word_def unpack_word_def)

theorem pack_unpack_roundtrip_witness:
  "(0::int) \<le> 4660 \<and> (4660::int) \<le> 65535 \<and>
   pack_word session0 4660 = Inr [0x34, 0x12] \<and>
   unpack_word session0 [0x34, 0x12] = Inr 4660 \<and>
   pack_word (session0\<lparr>little_endian := False\<rparr>) 4660 = Inr [0x12, 0x34] \<and>
   unpack_word (session0\<lparr>little_endian := False\<rparr>) [0x12, 0x34] = Inr 4660"
  using pack_unpack_roundtrip [of 4660 session0]
    pack_unpack_roundtrip [of 4660 "session0\<lparr>little_endian := False\<rparr>"]
  by (simp add: session0_def pack_word_def unpack_word_def struct_pack_H_def
      struct_unpack_H_def)

section \<open>Transport\<close>

subsection \<open>The frame on the wire\<close>

lemma pack_crc:
  "struct_pack_H True (calculate_crc command) =
     Inr [word_of_int (calculate_crc command mod 256), word_of_int (calculate_crc command div 256)]"
  using calculate_crc_range [of command] by (simp add: struct_pack_H_def)

lemma read_loop_short:
  "length (read_loop acc chunks) < 3 \<longleftrightarrow> length acc + length (concat chunks) < 3"
  by (induction chunks arbitrary: acc) auto

lemma unpack_two:
  assumes "length xs = 2"
  shows "\<exists>v. struct_unpack_H le xs = Inr v"
proof -
  from assms obtain a b where "xs = [a, b]"
    by (cases xs; cases "tl xs") auto
  then show ?thesis by (simp add: struct_unpack_H_def)
qed

lemma unpack_trailing:
  assumes "3 \<le> length response"
  shows "\<exists>v. struct_unpack_H True (drop (length response - 2) response) = Inr v"
  using assms by (intro unpack_two) simp

lemma send_command_cases:
  fixes s :: session and w :: link and command :: "byte list"
  assumes "connected s" "serial_open s"
  defines "response \<equiv> read_loop [] (next_chunks w)"
  defines "crc_bytes \<equiv> [word_of_int (calculate_crc command mod 256),
                       word_of_int (calculate_crc command div 256)]"
  defines "w' \<equiv> w\<lparr>rx := tl (rx w), tx := tx w @ [command @ crc_bytes]\<rparr>"
  shows "send_command s command w =
    (if length response < 3 then (Inl (LinkTimeout (length response)), w')
     else case struct_unpack_H True (drop (length response - 2) response) of
            Inl e \<Rightarrow> (Inl e, w')
          | Inr received_crc \<Rightarrow>
              if received_crc \<noteq> calculate_crc (take (length response - 2) response)
              then (Inl (ChecksumMismatch (calculate_crc (take (length response - 2) response)) received_crc), w')
              else (Inr response, w'))"
  using assms(1,2) unfolding response_def w'_def crc_bytes_def
  by (simp add: send_command_def pack_crc Let_def split: sum.splits)

lemma crc_status_request: "calculate_crc [0x00, 0x03, 0x00, 0x00, 0x08, 0x00] = 0xDB43"
  by code_simp

text \<open>
  Claim C6. In a connected session, for every request body (address, function code and
  payload, in this order) \<^verbatim>\<open>_send_command\<close> writes exactly one frame: the body followed
  by the two bytes of the body's checksum, low byte first. The session's register
  endianness plays no part: flipping \<open>little_endian\<close> changes nothing in what
  \<^verbatim>\<open>_send_command\<close> does.
\<close>

theorem send_command_frame:
  "connected s \<Longrightarrow> serial_open s \<Longrightarrow>
     tx (snd (send_command s body w)) =
       tx w @ [body @ [word_of_int (calculate_crc body mod 256),
                       word_of_int (calculate_crc body div 256)]]
     \<and> send_command (s\<lparr>little_endian := b\<rparr>) body w = send_command s body w"
proof -
  assume c: "connected s" "serial_open s"
  have 1: "tx (snd (send_command s body w)) =
       tx w @ [body @ [word_of_int (calculate_crc body mod 256),
                       word_of_int (calculate_crc body div 256)]]"
    using unpack_trailing [of "read_loop [] (next_chunks w)"]
    by (auto simp: send_command_cases [OF c] split: sum.splits)
  have 2: "send_command (s\<lparr>little_endian := b\<rparr>) body w = send_command s body w"
    by (simp add: send_command_def)
  from 1 2 show ?thesis by simp
qed

theorem send_command_frame_witness:
  "connected session0 \<and> serial_open session0 \<and>
   tx (snd (send_command session0 [0x00, 0x03, 0x00, 0x00, 0x08, 0x00] link0))
     = [[0x00, 0x03, 0x00, 0x00, 0x08, 0x00, 0x43, 0xDB]] \<and>
   tx (snd (send_command (session0\<lparr>little_endian := False\<rparr>)
              [0x00, 0x03, 0x00, 0x00, 0x08, 0x00] link0))
     = [[0x00, 0x03, 0x00, 0x00, 0x08, 0x00, 0x43, 0xDB]]"
  using send_command_frame [of session0 "[0x00, 0x03, 0x00, 0x00, 0x08, 0x00]" link0 False]
  by (simp add: crc_status_request session0_def link0_def)

subsection \<open>Failures of an exchange\<close>

lemma status_request:
  assumes "0 \<le> slave_addr s" "slave_addr s \<le> 255"
  shows "struct_pack_BBHH (slave_addr s) 0x03 0x0000 0x0008
           = Inr [word_of_int (slave_addr s), 0x03, 0x00, 0x00, 0x08, 0x00]"
  using assms by (simp add: struct_pack_BBHH_def struct_pack_B_def struct_pack_H_def)

lemma send_command_result:
  fixes s :: session and w :: link and command :: "byte list"
  assumes "connected s" "serial_open s"
  defines "response \<equiv> read_loop [] (next_chunks w)"
  defines "crc_ok \<equiv> struct_unpack_H True (drop (length response - 2) response)
                       = Inr (calculate_crc (take (length response - 2) response))"
  shows "length response < 3 \<Longrightarrow>
           fst (send_command s command w) = Inl (LinkTimeout (length response))"
    and "3 \<le> length response \<Longrightarrow> \<not> crc_ok \<Longrightarrow>
           \<exists>c r. fst (send_command s command w) = Inl (ChecksumMismatch c r)"
    and "3 \<le> length response \<Longrightarrow> crc_ok \<Longrightarrow>
           fst (send_command s command w) = Inr response"
proof -
  note sc = send_command_cases [OF assms(1,2), of command w, folded response_def]
  show "length response < 3 \<Longrightarrow>
           fst (send_command s command w) = Inl (LinkTimeout (length response))"
    by (simp add: sc)
  show "3 \<le> length response \<Longrightarrow> \<not> crc_ok \<Longrightarrow>
           \<exists>c r. fst (send_command s command w) = Inl (ChecksumMismatch c r)"
    using unpack_trailing [of response] unfolding crc_ok_def
    by (auto simp: sc split: sum.splits)
  show "3 \<le> length response \<Longrightarrow> crc_ok \<Longrightarrow>
           fst (send_command s command w) = Inr response"
    unfolding crc_ok_def by (simp add: sc)
qed

lemma read_raw_status_link0:
  "fst (read_raw_status session0 link0) = Inr status_reply0"
  by code_simp

text \<open>
  Claim C9, as amended. The claim's conditions do not hold each on its own: the checks of
  an exchange come in a fixed order, and each failure is met exactly when the checks
  before it have passed and its own fails. In a connected session, with \<open>response\<close> what
  the receive loop has gathered when it stops: a send fails with the timeout error
  exactly when fewer than 3 bytes arrive before the deadline; it fails with the checksum
  error exactly when at least 3 bytes arrived and the last two, read low byte first,
  differ from the checksum of the bytes before them; in every other case it returns the
  response as received. A status read (with a slave address that fits a byte) fails with
  the malformed-response error exactly when the send has succeeded (at least 3 bytes and
  a matching checksum) with fewer than 21 bytes, and returns the raw response exactly
  when the send has succeeded with at least 21.
\<close>

theorem transport_failure_conditions:
  assumes "connected s" and "serial_open s" and "0 \<le> slave_addr s" and "slave_addr s \<le> 255"
  shows
   "(let response = read_loop [] (next_chunks w);
         crc_ok = (struct_unpack_H True (drop (length response - 2) response)
                     = Inr (calculate_crc (take (length response - 2) response)));
         sent = fst (send_command s command w);
         stat = fst (read_raw_status s w)
     in ((\<exists>n. sent = Inl (LinkTimeout n)) = (length (concat (next_chunks w)) < 3))
      \<and> ((\<exists>c r. sent = Inl (ChecksumMismatch c r)) = (3 \<le> length response \<and> \<not> crc_ok))
      \<and> ((\<exists>x. sent = Inr x) = (3 \<le> length response \<and> crc_ok))
      \<and> (\<forall>x. sent = Inr x \<longrightarrow> x = response)
      \<and> ((\<exists>n. stat = Inl (MalformedResponse n))
            = (3 \<le> length response \<and> crc_ok \<and> length response < 21))
      \<and> ((\<exists>x. stat = Inr x) = (21 \<le> length response \<and> crc_ok))
      \<and> (\<forall>x. stat = Inr x \<longrightarrow> x = response))"
proof -
  define response where "response = read_loop [] (next_chunks w)"
  define crc_ok where "crc_ok \<longleftrightarrow> struct_unpack_H True (drop (length response - 2) response)
                     = Inr (calculate_crc (take (length response - 2) response))"
  define req where "req = [word_of_int (slave_addr s), 0x03, 0x00, 0x00, 0x08, 0x00 :: byte]"
  note r = send_command_result [OF assms(1,2), of w, folded response_def, folded crc_ok_def]
  have short: "length (concat (next_chunks w)) < 3 \<longleftrightarrow> length response < 3"
    using read_loop_short [of "[]" "next_chunks w"] by (simp add: response_def)
  consider (timeout) "length response < 3"
    | (bad) "3 \<le> length response" "\<not> crc_ok"
    | (good) "3 \<le> length response" "crc_ok"
    by linarith
  then have sent:
    "((\<exists>n. fst (send_command s c w) = Inl (LinkTimeout n)) = (length response < 3))
      \<and> ((\<exists>a b. fst (send_command s c w) = Inl (ChecksumMismatch a b))
            = (3 \<le> length response \<and> \<not> crc_ok))
      \<and> ((\<exists>x. fst (send_command s c w) = Inr x) = (3 \<le> length response \<and> crc_ok))
      \<and> (\<forall>x. fst (send_command s c w) = Inr x \<longrightarrow> x = response)" for c
  proof cases
    case timeout
    then show ?thesis using r(1) [of c] by simp
  next
    case bad
    then show ?thesis using r(2) [of c] by auto
  next
    case good
    then show ?thesis using r(3) [of c] by simp
  qed
  have stat_eq: "fst (read_raw_status s w) =
      (case fst (send_command s req w) of
         Inl e \<Rightarrow> Inl e
       | Inr x \<Rightarrow> if length x < 21 then Inl (MalformedResponse (length x)) else Inr x)"
    by (simp add: read_raw_status_def status_request [OF assms(3,4)] req_def
        split: prod.splits sum.splits)
  have stat:
    "((\<exists>n. fst (read_raw_status s w) = Inl (MalformedResponse n))
            = (3 \<le> length response \<and> crc_ok \<and> length response < 21))
      \<and> ((\<exists>x. fst (read_raw_status s w) = Inr x) = (21 \<le> length response \<and> crc_ok))
      \<and> (\<forall>x. fst (read_raw_status s w) = Inr x \<longrightarrow> x = response)"
    using sent [of req] unfolding stat_eq
    by (cases "fst (send_command s req w)") auto
  show ?thesis
    using sent [of command] stat short
    unfolding Let_def response_def [symmetric] crc_ok_def [symmetric]
    by simp
qed

theorem transport_failure_conditions_witness:
  "connected session0 \<and> serial_open session0 \<and>
   0 \<le> slave_addr session0 \<and> slave_addr session0 \<le> 255 \<and>
   read_loop [] (next_chunks link0) = status_reply0 \<and>
   fst (read_raw_status session0 link0) = Inr status_reply0 \<and>
   \<not> length (concat (next_chunks link0)) < 3"
  using transport_failure_conditions [of session0 link0 "[]"] read_raw_status_link0
  by (simp add: session0_def link0_def next_chunks_def status_reply0_def Let_def)

text \<open>
  The claim as it is written fails on a reply of two bytes, \<open>00 03\<close>. Its last two bytes
  (the value \<open>0x0300\<close>) differ from the checksum \<open>0xFFFF\<close> of the empty rest, and it is
  shorter than 21 bytes; yet the send fails with the timeout error, not with the checksum
  error, and the status read fails with the timeout error, not with the
  malformed-response error.
\<close>

theorem short_reply_is_timeout:
  "read_loop [] (next_chunks link_short) = [0x00, 0x03] \<and>
   struct_unpack_H True (drop (length [0x00, 0x03 :: byte] - 2) [0x00, 0x03]) = Inr 0x0300 \<and>
   calculate_crc (take (length [0x00, 0x03 :: byte] - 2) [0x00, 0x03]) = 0xFFFF \<and>
   fst (send_command session0 [0x00, 0x03, 0x00, 0x00, 0x08, 0x00] link_short)
     = Inl (LinkTimeout 2) \<and>
   fst (read_raw_status session0 link_short) = Inl (LinkTimeout 2)"
  by code_simp

section \<open>Command processor\<close>

subsection \<open>Dispatch of an abbreviated command\<close>

lemma volt_set_unknown:
  fixes run :: "'w runner"
  shows "process_single_command run ''VOLT 5.0'' w = (''ERROR: Unknown command'', w)"
proof -
  have n: "normalize_command ''VOLT 5.0'' = ''VOLTage 5.0''" by code_simp
  have f: "find_handler ''VOLTage'' commands = None" by code_simp
  show ?thesis by (simp add: process_single_command_def n f)
qed

lemma volt_query_unknown:
  fixes run :: "'w runner"
  shows "process_single_command run ''VOLT?'' w = (''ERROR: Unknown command'', w)"
proof -
  have n: "normalize_command ''VOLT?'' = ''VOLTage?''" by code_simp
  have f: "find_handler ''VOLTage?'' commands = None" by code_simp
  show ?thesis by (simp add: process_single_command_def n f)
qed

text \<open>
  Claim C1, evaluated on the code. The claim says that the line \<^verbatim>\<open>VOLT 5.0;VOLT?\<close> is
  answered by \<^verbatim>\<open>OK\<close> and the set voltage. In the code, normalisation turns \<^verbatim>\<open>VOLT\<close> into
  the mixed-case \<^verbatim>\<open>VOLTage\<close>, the dispatcher compares this name with the upper-cased
  table entries, finds none, and both sub-commands are answered by
  \<^verbatim>\<open>ERROR: Unknown command\<close>, whatever the handlers and the device would do.
\<close>

theorem volt_command_unknown:
  fixes run :: "'w runner"
  shows "process_command run ''VOLT 5.0;VOLT?'' w
     = (''ERROR: Unknown command'' @ [CHR 0x0A] @ ''ERROR: Unknown command'', w)"
proof -
  have a: "strip ''VOLT 5.0;VOLT?'' = ''VOLT 5.0;VOLT?''" by code_simp
  have b: "split_char CHR '';'' ''VOLT 5.0;VOLT?'' = [''VOLT 5.0'', ''VOLT?'']" by code_simp
  have c: "strip ''VOLT 5.0'' = ''VOLT 5.0''" "strip ''VOLT?'' = ''VOLT?''" by code_simp+
  show ?thesis
    unfolding process_command_def a b Let_def
    by (simp add: c volt_set_unknown volt_query_unknown)
qed

subsection \<open>Normalisation twice\<close>

lemma replace_absent: "\<not> contains old s \<Longrightarrow> replace old new s = s"
proof (induction s)
  case Nil
  then show ?case by simp
next
  case (Cons c cs)
  from Cons.prems have "old \<noteq> []" by auto
  with Cons show ?case by simp
qed

lemma expand_absent:
  "\<forall>(abbrev, full) \<in> set abbrs. \<not> contains abbrev command \<Longrightarrow> expand abbrs command = command"
  by (induction abbrs) (auto simp: replace_absent)

lemma upper_char_idem: "upper_char (upper_char c) = upper_char c"
proof (cases "97 \<le> (of_char c :: nat) \<and> (of_char c :: nat) \<le> 122")
  case True
  define m where "m = (of_char c :: nat) - 32"
  from True have m: "m < 97" "m < 256" unfolding m_def by linarith+
  from True have 1: "upper_char c = char_of m"
    by (simp add: upper_char_def Let_def m_def)
  from m have "(of_char (char_of m :: char) :: nat) = m" by simp
  with m have "upper_char (char_of m) = char_of m"
    by (simp add: upper_char_def Let_def)
  with 1 show ?thesis by simp
next
  case False
  then have "upper_char c = c" unfolding upper_char_def Let_def by (simp only: if_False)
  then show ?thesis by simp
qed

lemma upper_idem: "upper (upper s) = upper s"
  by (simp add: upper_def upper_char_idem)

lemma idn_free: "\<forall>(abbrev, full) \<in> set abbreviations. \<not> contains abbrev (upper ''*idn?'')"
  by code_simp

lemma idn_ascii: "isascii ''*idn?''"
  by code_simp

text \<open>
  Claim C2, as amended. Normalisation is not idempotent on every line: an expansion
  contains its own abbreviation, so a normalised \<^verbatim>\<open>VOLT\<close> is expanded again. It is
  idempotent on the ASCII lines that hold no abbreviation: for every ASCII line whose
  upper-cased form contains none of the abbreviations of the table,
  \<^verbatim>\<open>_normalize_command\<close> returns the upper-cased line, and normalising that result again
  returns it unchanged.
\<close>

theorem normalize_idempotent_without_abbreviation:
  "isascii s \<Longrightarrow>
   \<forall>(abbrev, full) \<in> set abbreviations. \<not> contains abbrev (upper s) \<Longrightarrow>
     normalize_command s = upper s \<and>
     normalize_command (normalize_command s) = normalize_command s"
  by (simp add: normalize_command_def expand_absent upper_idem)

theorem normalize_idempotent_without_abbreviation_witness:
  "isascii ''*idn?'' \<and>
   upper ''*idn?'' = ''*IDN?'' \<and>
   normalize_command ''*idn?'' = upper ''*idn?'' \<and>
   normalize_command (normalize_command ''*idn?'') = normalize_command ''*idn?''"
proof -
  have u: "upper ''*idn?'' = ''*IDN?''" by code_simp
  from normalize_idempotent_without_abbreviation [OF idn_ascii idn_free] idn_ascii u
  show ?thesis by blast
qed

theorem normalize_not_idempotent:
  "normalize_command ''VOLT'' = ''VOLTage'' \<and>
   normalize_command (normalize_command ''VOLT'') = ''VOLTageAGE'' \<and>
   normalize_command (normalize_command ''VOLT'') \<noteq> normalize_command ''VOLT''"
  by code_simp

section \<open>Connection server\<close>

lemma tst_normalize: "normalize_command ''*TST?'' = ''*TST?''" by code_simp
lemma tst_find: "find_handler ''*TST?'' commands = Some H_self_test" by code_simp

lemma tst_dispatch:
  "process_single_command run ''*TST?'' w = run H_self_test None w"
  by (simp add: process_single_command_def tst_normalize tst_find)

lemma tst_dispatch2:
  "process_command run ''*TST?'' w = run H_self_test None w"
proof -
  have a: "strip ''*TST?'' = ''*TST?''" by code_simp
  have b: "split_char CHR '';'' ''*TST?'' = [''*TST?'']" by code_simp
  show ?thesis
    unfolding process_command_def a b Let_def
    by (simp add: a tst_dispatch split: prod.splits)
qed


text \<open>
  Claim C3, evaluated on the code. The claim says that a \<^verbatim>\<open>QUIT\<close> line makes the server
  send the farewell, close the connection and process no further line. In the code the
  \<^verbatim>\<open>break\<close> leaves the inner loop only: after the farewell the session goes on, and a
  line that arrives next (here \<^verbatim>\<open>*TST?\<close>) is dispatched to its handler and answered. The
  socket is closed only when the peer goes away.
\<close>

theorem quit_keeps_session_open:
  fixes run :: "'w runner"
  shows "handle_client run [Data (''QUIT'' @ [CHR 0x0A]), Data (''*TST?'' @ [CHR 0x0A])] w
     = (snd (run H_self_test None w),
        [Sent (''WANPTEK SCPI Server Ready'' @ [CHR 0x0A]), Sent (''Goodbye'' @ [CHR 0x0A])]
        @ (if fst (run H_self_test None w) \<noteq> []
           then [Sent (fst (run H_self_test None w) @ [CHR 0x0A])] else [])
        @ [Closed])"
proof -
  define q where "q = ''QUIT'' @ [CHR 0x0A]"
  define t where "t = ''*TST?'' @ [CHR 0x0A]"
  have s1: "strip ''QUIT'' = ''QUIT''" by code_simp
  have u1: "upper ''QUIT'' = ''QUIT''" by code_simp
  have s2: "strip ''*TST?'' = ''*TST?''" by code_simp
  have u2: "upper ''*TST?'' = ''*TST?''" by code_simp
  have ne: "q \<noteq> []" "t \<noteq> []" by (simp_all add: q_def t_def)
  have quit: "process_lines run q w out = ([], w, out @ [Sent (''Goodbye'' @ [CHR 0x0A])])"
    for out
    unfolding q_def by (subst process_lines.simps) (simp add: s1 u1)
  have stop: "process_lines run [] w' out = ([], w', out)" for w' out
    by (subst process_lines.simps) simp
  have tst: "process_lines run t w out
      = ([], snd (run H_self_test None w),
         if fst (run H_self_test None w) \<noteq> []
         then out @ [Sent (fst (run H_self_test None w) @ [CHR 0x0A])] else out)" for out
    unfolding t_def
    by (subst process_lines.simps) (simp add: s2 u2 tst_dispatch2 stop split: prod.splits)
  have "handle_client run [Data q, Data t] w
     = (snd (run H_self_test None w),
        [Sent (''WANPTEK SCPI Server Ready'' @ [CHR 0x0A]), Sent (''Goodbye'' @ [CHR 0x0A])]
        @ (if fst (run H_self_test None w) \<noteq> []
           then [Sent (fst (run H_self_test None w) @ [CHR 0x0A])] else [])
        @ [Closed])"
    by (simp add: handle_client_def ne quit tst del: process_lines.simps)
  then show ?thesis by (simp only: q_def t_def)
qed

section \<open>Output control\<close>

subsection \<open>The operations on the concrete links\<close>

lemma decode_status0: "decode_status session0 status_reply0 = Inr status0"
  by code_simp

lemma read_raw_status_rest:
  "read_raw_status session0 \<lparr>rx = [status_reply0] # rest, tx = []\<rparr>
     = (Inr status_reply0,
        \<lparr>rx = rest, tx = [[0x00, 0x03, 0x00, 0x00, 0x08, 0x00, 0x43, 0xDB]]\<rparr>)"
  by code_simp

lemma read_status_rest:
  "read_status session0 \<lparr>rx = [status_reply0] # rest, tx = []\<rparr>
     = (Inr status0,
        \<lparr>rx = rest, tx = [[0x00, 0x03, 0x00, 0x00, 0x08, 0x00, 0x43, 0xDB]]\<rparr>)"
  by (simp add: read_status_def read_raw_status_rest decode_status0)

lemma write_frame_29:
  "write_frame session0 (Fin 5) (Fin (5224175567749775 / 18014398509481984)) False False False
     = Inr [0x00, 0x10, 0x00, 0x00, 0x03, 0x00, 0x06, 0x00, 0x00, 0xF4, 0x01, 0x1C, 0x00]"
  by code_simp

lemma send_write_ack:
  "send_command session0
      [0x00, 0x10, 0x00, 0x00, 0x03, 0x00, 0x06, 0x00, 0x00, 0xF4, 0x01, 0x1C, 0x00]
      \<lparr>rx = [[write_ack0]], tx = [[0x00, 0x03, 0x00, 0x00, 0x08, 0x00, 0x43, 0xDB]]\<rparr>
   = (Inr write_ack0,
      \<lparr>rx = [],
       tx = [[0x00, 0x03, 0x00, 0x00, 0x08, 0x00, 0x43, 0xDB],
             [0x00, 0x10, 0x00, 0x00, 0x03, 0x00, 0x06, 0x00, 0x00, 0xF4, 0x01, 0x1C, 0x00,
              0xDB, 0xD4]]\<rparr>)"
  by code_simp

lemma send_write_mute:
  "send_command session0
      [0x00, 0x10, 0x00, 0x00, 0x03, 0x00, 0x06, 0x00, 0x00, 0xF4, 0x01, 0x1C, 0x00]
      \<lparr>rx = [], tx = [[0x00, 0x03, 0x00, 0x00, 0x08, 0x00, 0x43, 0xDB]]\<rparr>
   = (Inl (LinkTimeout 0),
      \<lparr>rx = [],
       tx = [[0x00, 0x03, 0x00, 0x00, 0x08, 0x00, 0x43, 0xDB],
             [0x00, 0x10, 0x00, 0x00, 0x03, 0x00, 0x06, 0x00, 0x00, 0xF4, 0x01, 0x1C, 0x00,
              0xDB, 0xD4]]\<rparr>)"
  by code_simp

lemma write_frame_nan:
  "write_frame session0 NaN (Fin (5224175567749775 / 18014398509481984)) False False False
     = Inl FloatToIntError"
  by code_simp

lemma read_status_link0: "read_status session0 link0 = (Inr status0, link1)"
  by (simp add: link0_def link1_def read_status_rest)

lemma read_status_link_mute:
  "read_status session0 link_mute
     = (Inr status0, \<lparr>rx = [], tx = [[0x00, 0x03, 0x00, 0x00, 0x08, 0x00, 0x43, 0xDB]]\<rparr>)"
  by (simp add: link_mute_def read_status_rest)

lemma read_status_link_short: "read_status session0 link_short = (Inl (LinkTimeout 2),
    \<lparr>rx = [], tx = [[0x00, 0x03, 0x00, 0x00, 0x08, 0x00, 0x43, 0xDB]]\<rparr>)"
  by code_simp

lemma read_status_link_mute_link1:
  "read_status session0 link_mute = (Inr status0, link1\<lparr>rx := []\<rparr>)"
  by (simp add: read_status_link_mute link1_def)

lemma session0_fields:
  "max_voltage session0 = Fin 30" "max_current session0 = Fin 5"
  "connected session0" "serial_open session0" "slave_addr session0 = 0"
  by (simp_all add: session0_def)

lemma status0_fields:
  "st_set_voltage status0 = Fin 12"
  "st_set_current status0 = Fin (5224175567749775 / 18014398509481984)"
  "st_power_on status0 = False" "st_ocp_enabled status0 = False"
  "st_keyboard_locked status0 = False"
  by (simp_all add: status0_def)

subsection \<open>What a status read does to the link\<close>

lemma send_command_tx:
  "tx (snd (send_command s command w)) = tx w
   \<or> (\<exists>crc_bytes. tx (snd (send_command s command w)) = tx w @ [command @ crc_bytes])"
  by (auto simp: send_command_def Let_def split: sum.splits)

lemma send_command_ok_tx:
  "send_command s command w = (Inr response, w') \<Longrightarrow>
     \<exists>crc_bytes. tx w' = tx w @ [command @ crc_bytes]"
  by (auto simp: send_command_def Let_def split: sum.splits if_splits)

lemma status_request_shape:
  "struct_pack_BBHH a 0x03 0x0000 0x0008 = Inr command \<Longrightarrow>
     2 \<le> length command \<and> command ! 1 = 0x03"
  by (auto simp: struct_pack_BBHH_def struct_pack_B_def struct_pack_H_def
      split: sum.splits if_splits)

lemma read_raw_status_tx:
  "tx (snd (read_raw_status s w)) = tx w
   \<or> (\<exists>frame. tx (snd (read_raw_status s w)) = tx w @ [frame] \<and> frame ! 1 = 0x03)"
proof (cases "struct_pack_BBHH (slave_addr s) 0x03 0x0000 0x0008")
  case (Inl e)
  then show ?thesis by (simp add: read_raw_status_def)
next
  case (Inr command)
  from status_request_shape [OF Inr] have shape: "(command @ bs) ! 1 = 0x03" for bs
    by (simp add: nth_append)
  have "snd (read_raw_status s w) = snd (send_command s command w)"
    by (simp add: read_raw_status_def Inr split: prod.splits sum.splits)
  with send_command_tx [of s command w] shape show ?thesis by auto
qed

lemma read_status_tx:
  "tx (snd (read_status s w)) = tx w
   \<or> (\<exists>frame. tx (snd (read_status s w)) = tx w @ [frame] \<and> frame ! 1 = 0x03)"
proof -
  have "snd (read_status s w) = snd (read_raw_status s w)"
    by (simp add: read_status_def split: prod.splits sum.splits)
  with read_raw_status_tx [of s w] show ?thesis by simp
qed

lemma read_status_ok_tx:
  assumes "read_status s w = (Inr st, w1)"
  shows "\<exists>frame. tx w1 = tx w @ [frame] \<and> frame ! 1 = 0x03"
proof -
  from assms obtain response where raw: "read_raw_status s w = (Inr response, w1)"
    by (auto simp: read_status_def split: prod.splits sum.splits)
  then obtain command where c: "struct_pack_BBHH (slave_addr s) 0x03 0x0000 0x0008 = Inr command"
    and sc: "send_command s command w = (Inr response, w1)"
    by (auto simp: read_raw_status_def split: prod.splits sum.splits if_splits)
  from status_request_shape [OF c] have "(command @ bs) ! 1 = 0x03" for bs
    by (simp add: nth_append)
  with send_command_ok_tx [OF sc] show ?thesis by auto
qed

subsection \<open>Range validation\<close>

text \<open>
  Claim C7, as amended. \<^verbatim>\<open>set_output\<close> reads the status before it validates anything, so
  the range error is what the caller gets only when that read succeeds. When the status
  read succeeds and the effective target voltage (the argument, or the status's set
  voltage when the argument is \<^verbatim>\<open>None\<close>) exceeds \<^verbatim>\<open>max_voltage\<close>, or the effective target
  current exceeds \<^verbatim>\<open>max_current\<close>, or either target is negative, \<^verbatim>\<open>set_output\<close> fails with
  one of the three range errors and the only frame written to the link is the status
  request (function code \<open>0x03\<close>). When the status read fails, \<^verbatim>\<open>set_output\<close> fails with
  the read's error, whatever the arguments, and at most the status request has been
  written. In neither case is a write frame issued.
\<close>

theorem set_output_rejects_out_of_range:
  "(read_status s w = (Inr st, w1) \<and>
    (float_gt (case voltage of Some v \<Rightarrow> v | None \<Rightarrow> st_set_voltage st) (max_voltage s)
     \<or> float_gt (case current of Some c \<Rightarrow> c | None \<Rightarrow> st_set_current st) (max_current s)
     \<or> float_lt (case voltage of Some v \<Rightarrow> v | None \<Rightarrow> st_set_voltage st) (Fin 0)
     \<or> float_lt (case current of Some c \<Rightarrow> c | None \<Rightarrow> st_set_current st) (Fin 0))
    \<longrightarrow> (set_output s voltage current power_on ocp_enable keyboard_lock w
             = (Inl VoltageExceedsMax, w1)
         \<or> set_output s voltage current power_on ocp_enable keyboard_lock w
             = (Inl CurrentExceedsMax, w1)
         \<or> set_output s voltage current power_on ocp_enable keyboard_lock w
             = (Inl NegativeSetting, w1))
        \<and> (\<exists>frame. tx w1 = tx w @ [frame] \<and> frame ! 1 = 0x03))
   \<and> (read_status s w = (Inl e', w1)
    \<longrightarrow> set_output s voltage current power_on ocp_enable keyboard_lock w = (Inl e', w1)
        \<and> (tx w1 = tx w \<or> (\<exists>frame. tx w1 = tx w @ [frame] \<and> frame ! 1 = 0x03)))"
proof (intro conjI impI)
  assume a: "read_status s w = (Inr st, w1) \<and>
    (float_gt (case voltage of Some v \<Rightarrow> v | None \<Rightarrow> st_set_voltage st) (max_voltage s)
     \<or> float_gt (case current of Some c \<Rightarrow> c | None \<Rightarrow> st_set_current st) (max_current s)
     \<or> float_lt (case voltage of Some v \<Rightarrow> v | None \<Rightarrow> st_set_voltage st) (Fin 0)
     \<or> float_lt (case current of Some c \<Rightarrow> c | None \<Rightarrow> st_set_current st) (Fin 0))"
  then show "set_output s voltage current power_on ocp_enable keyboard_lock w
             = (Inl VoltageExceedsMax, w1)
         \<or> set_output s voltage current power_on ocp_enable keyboard_lock w
             = (Inl CurrentExceedsMax, w1)
         \<or> set_output s voltage current power_on ocp_enable keyboard_lock w
             = (Inl NegativeSetting, w1)"
    by (auto simp: set_output_def Let_def)
  from a show "\<exists>frame. tx w1 = tx w @ [frame] \<and> frame ! 1 = 0x03"
    using read_status_ok_tx by blast
next
  assume b: "read_status s w = (Inl e', w1)"
  then show "set_output s voltage current power_on ocp_enable keyboard_lock w = (Inl e', w1)"
    by (simp add: set_output_def)
  from b read_status_tx [of s w]
  show "tx w1 = tx w \<or> (\<exists>frame. tx w1 = tx w @ [frame] \<and> frame ! 1 = 0x03)"
    by simp
qed

theorem set_output_rejects_out_of_range_witness:
  "read_status session0 link0 = (Inr status0, link1) \<and>
   float_gt (Fin 31) (max_voltage session0) \<and>
   set_output session0 (Some (Fin 31)) None None None None link0
     = (Inl VoltageExceedsMax, link1) \<and>
   tx link1 = tx link0 @ [[0x00, 0x03, 0x00, 0x00, 0x08, 0x00, 0x43, 0xDB]]"
  using set_output_rejects_out_of_range
          [of session0 link0 status0 link1 "Some (Fin 31)" None None None None]
        read_status_link0
  by (simp add: set_output_def session0_fields link0_def link1_def)

text \<open>
  The claim as it is written fails when the status read fails. With a target of 31 V on a
  30 V unit and a link on which only two bytes arrive, \<^verbatim>\<open>set_output\<close> fails with the
  timeout error of the read, not with a range error.
\<close>

theorem out_of_range_with_failed_read:
  "float_gt (Fin 31) (max_voltage session0) \<and>
   set_output session0 (Some (Fin 31)) None None None None link_short
     = (Inl (LinkTimeout 2),
        \<lparr>rx = [], tx = [[0x00, 0x03, 0x00, 0x00, 0x08, 0x00, 0x43, 0xDB]]\<rparr>)"
  by (simp add: set_output_def session0_fields read_status_link_short)

subsection \<open>Which failures leave the method\<close>

lemma py_int_error: "py_int x = Inl e \<Longrightarrow> e = FloatToIntError"
  by (cases x) simp_all

lemma struct_pack_B_error: "struct_pack_B v = Inl e \<Longrightarrow> e = StructError"
  by (simp add: struct_pack_B_def split: if_splits)

lemma struct_pack_H_error: "struct_pack_H le v = Inl e \<Longrightarrow> e = StructError"
  by (simp add: struct_pack_H_def split: if_splits)

lemma struct_pack_BBHH_error: "struct_pack_BBHH a f r c = Inl e \<Longrightarrow> e = StructError"
  by (auto simp: struct_pack_BBHH_def split: sum.splits
      dest: struct_pack_B_error struct_pack_H_error)

lemma struct_pack_BBHHB_error: "struct_pack_BBHHB a f r c n = Inl e \<Longrightarrow> e = StructError"
  by (auto simp: struct_pack_BBHHB_def split: sum.splits
      dest: struct_pack_B_error struct_pack_BBHH_error)

lemma struct_pack_BB_error: "struct_pack_BB a b = Inl e \<Longrightarrow> e = StructError"
  by (auto simp: struct_pack_BB_def split: sum.splits dest: struct_pack_B_error)

lemma pack_word_error: "pack_word s v = Inl e \<Longrightarrow> e = StructError"
  by (auto simp: pack_word_def split: if_splits dest: struct_pack_H_error)

lemma write_frame_error:
  "write_frame s tv tc tp toc tlk = Inl e \<Longrightarrow> e = FloatToIntError \<or> e = StructError"
  by (auto simp: write_frame_def Let_def split: sum.splits
      dest: py_int_error struct_pack_BBHHB_error struct_pack_BB_error pack_word_error)

text \<open>
  Claim C10, as amended. With the targets filled in from the status and in range: when
  the exchange of the write frame fails, with whatever error, \<^verbatim>\<open>set_output\<close> returns
  \<^verbatim>\<open>False\<close>; when building the write frame fails, the failure propagates and is the error
  of the conversion \<^verbatim>\<open>int(...)\<close> or a \<^verbatim>\<open>struct.error\<close>. A failure of the status read
  propagates unchanged. Every failure that \<^verbatim>\<open>set_output\<close> propagates is the failure of the
  status read, one of the three range errors, the conversion error or a \<^verbatim>\<open>struct.error\<close>, and
  the link is then as the status read left it: no write frame has been sent.
\<close>

theorem set_output_failure_paths:
  "(let tv = (case voltage of Some v \<Rightarrow> v | None \<Rightarrow> st_set_voltage st);
        tc = (case current of Some c \<Rightarrow> c | None \<Rightarrow> st_set_current st);
        tp = (case power_on of Some p \<Rightarrow> p | None \<Rightarrow> st_power_on st);
        toc = (case ocp_enable of Some p \<Rightarrow> p | None \<Rightarrow> st_ocp_enabled st);
        tlk = (case keyboard_lock of Some p \<Rightarrow> p | None \<Rightarrow> st_keyboard_locked st);
        in_range = (\<not> float_gt tv (max_voltage s) \<and> \<not> float_gt tc (max_current s)
                    \<and> \<not> float_lt tv (Fin 0) \<and> \<not> float_lt tc (Fin 0))
    in (read_status s w = (Inr st, w1) \<and> in_range
          \<and> write_frame s tv tc tp toc tlk = Inr frame
          \<and> send_command s frame w1 = (Inl e, w2)
        \<longrightarrow> set_output s voltage current power_on ocp_enable keyboard_lock w = (Inr False, w2))
     \<and> (read_status s w = (Inr st, w1) \<and> in_range
          \<and> write_frame s tv tc tp toc tlk = Inl e
        \<longrightarrow> set_output s voltage current power_on ocp_enable keyboard_lock w = (Inl e, w1)
            \<and> (e = FloatToIntError \<or> e = StructError)))
   \<and> (read_status s w = (Inl e, w1)
        \<longrightarrow> set_output s voltage current power_on ocp_enable keyboard_lock w = (Inl e, w1))
   \<and> (fst (set_output s voltage current power_on ocp_enable keyboard_lock w) = Inl e
        \<longrightarrow> (fst (read_status s w) = Inl e
             \<or> e \<in> {VoltageExceedsMax, CurrentExceedsMax, NegativeSetting,
                      FloatToIntError, StructError})
            \<and> snd (set_output s voltage current power_on ocp_enable keyboard_lock w)
                = snd (read_status s w))"
proof -
  have swallowed: "set_output s voltage current power_on ocp_enable keyboard_lock w
      = (Inr False, w2)"
    if "read_status s w = (Inr st, w1)"
      and "\<not> float_gt tv (max_voltage s)" "\<not> float_gt tc (max_current s)"
      and "\<not> float_lt tv (Fin 0)" "\<not> float_lt tc (Fin 0)"
      and "tv = (case voltage of Some v \<Rightarrow> v | None \<Rightarrow> st_set_voltage st)"
      and "tc = (case current of Some c \<Rightarrow> c | None \<Rightarrow> st_set_current st)"
      and "write_frame s tv tc
             (case power_on of Some p \<Rightarrow> p | None \<Rightarrow> st_power_on st)
             (case ocp_enable of Some p \<Rightarrow> p | None \<Rightarrow> st_ocp_enabled st)
             (case keyboard_lock of Some p \<Rightarrow> p | None \<Rightarrow> st_keyboard_locked st) = Inr frame"
      and "send_command s frame w1 = (Inl e, w2)" for tv tc
    using that by (simp add: set_output_def Let_def)
  have raised: "set_output s voltage current power_on ocp_enable keyboard_lock w = (Inl e, w1)"
    if "read_status s w = (Inr st, w1)"
      and "\<not> float_gt tv (max_voltage s)" "\<not> float_gt tc (max_current s)"
      and "\<not> float_lt tv (Fin 0)" "\<not> float_lt tc (Fin 0)"
      and "tv = (case voltage of Some v \<Rightarrow> v | None \<Rightarrow> st_set_voltage st)"
      and "tc = (case current of Some c \<Rightarrow> c | None \<Rightarrow> st_set_current st)"
      and "write_frame s tv tc
             (case power_on of Some p \<Rightarrow> p | None \<Rightarrow> st_power_on st)
             (case ocp_enable of Some p \<Rightarrow> p | None \<Rightarrow> st_ocp_enabled st)
             (case keyboard_lock of Some p \<Rightarrow> p | None \<Rightarrow> st_keyboard_locked st) = Inl e"
      for tv tc
    using that by (simp add: set_output_def Let_def)
  have read_failed: "set_output s voltage current power_on ocp_enable keyboard_lock w = (Inl e, w1)"
    if "read_status s w = (Inl e, w1)"
    using that by (simp add: set_output_def)
  have only: "(fst (read_status s w) = Inl e
             \<or> e \<in> {VoltageExceedsMax, CurrentExceedsMax, NegativeSetting,
                      FloatToIntError, StructError})
            \<and> snd (set_output s voltage current power_on ocp_enable keyboard_lock w)
                = snd (read_status s w)"
    if "fst (set_output s voltage current power_on ocp_enable keyboard_lock w) = Inl e"
  proof (cases "read_status s w")
    case (Pair r w')
    show ?thesis
    proof (cases r)
      case (Inl e')
      with Pair that show ?thesis by (simp add: set_output_def)
    next
      case (Inr st')
      with Pair that show ?thesis
        by (auto simp: set_output_def Let_def split: if_splits sum.splits prod.splits
            dest: write_frame_error)
    qed
  qed
  show ?thesis
    unfolding Let_def
    using swallowed raised read_failed only write_frame_error
    by (intro conjI impI) blast+
qed

theorem set_output_failure_paths_witness:
  "read_status session0 link_mute = (Inr status0, link1\<lparr>rx := []\<rparr>) \<and>
   write_frame session0 (Fin 5) (st_set_current status0) False False False
     = Inr [0x00, 0x10, 0x00, 0x00, 0x03, 0x00, 0x06, 0x00, 0x00, 0xF4, 0x01, 0x1C, 0x00] \<and>
   fst (send_command session0
          [0x00, 0x10, 0x00, 0x00, 0x03, 0x00, 0x06, 0x00, 0x00, 0xF4, 0x01, 0x1C, 0x00]
          (link1\<lparr>rx := []\<rparr>)) = Inl (LinkTimeout 0) \<and>
   fst (set_output session0 (Some (Fin 5)) None None None None link_mute) = Inr False"
proof -
  have sw: "send_command session0
      [0x00, 0x10, 0x00, 0x00, 0x03, 0x00, 0x06, 0x00, 0x00, 0xF4, 0x01, 0x1C, 0x00]
      (link1\<lparr>rx := []\<rparr>)
   = (Inl (LinkTimeout 0),
      \<lparr>rx = [],
       tx = [[0x00, 0x03, 0x00, 0x00, 0x08, 0x00, 0x43, 0xDB],
             [0x00, 0x10, 0x00, 0x00, 0x03, 0x00, 0x06, 0x00, 0x00, 0xF4, 0x01, 0x1C, 0x00,
              0xDB, 0xD4]]\<rparr>)"
    using send_write_mute by (simp add: link1_def)
  have wf: "write_frame session0 (Fin 5) (st_set_current status0) False False False
     = Inr [0x00, 0x10, 0x00, 0x00, 0x03, 0x00, 0x06, 0x00, 0x00, 0xF4, 0x01, 0x1C, 0x00]"
    using write_frame_29 by (simp add: status0_fields)
  have rng: "\<not> float_gt (Fin 5) (max_voltage session0)"
    "\<not> float_gt (st_set_current status0) (max_current session0)"
    "\<not> float_lt (Fin 5) (Fin 0)" "\<not> float_lt (st_set_current status0) (Fin 0)"
    by (simp_all add: session0_fields status0_fields float_lt_def)
  from set_output_failure_paths
         [where voltage = "Some (Fin 5)" and st = status0 and current = None
            and power_on = None and ocp_enable = None and keyboard_lock = None
            and s = session0 and w = link_mute and ?w1.0 = "link1\<lparr>rx := []\<rparr>"
            and frame = "[0x00, 0x10, 0x00, 0x00, 0x03, 0x00, 0x06, 0x00, 0x00, 0xF4, 0x01,
                          0x1C, 0x00]"
            and e = "LinkTimeout 0"
            and ?w2.0 = "\<lparr>rx = [],
               tx = [[0x00, 0x03, 0x00, 0x00, 0x08, 0x00, 0x43, 0xDB],
                     [0x00, 0x10, 0x00, 0x00, 0x03, 0x00, 0x06, 0x00, 0x00, 0xF4, 0x01, 0x1C,
                      0x00, 0xDB, 0xD4]]\<rparr>"]
       read_status_link_mute_link1 wf sw rng
  show ?thesis by (simp add: Let_def status0_fields)
qed

text \<open>
  The claim as it is written fails on a target that is not a number. NaN is neither
  above the maximum nor below zero, so it passes the range validation; \<^verbatim>\<open>int(nan * 100)\<close>
  then raises outside the \<^verbatim>\<open>try\<close>, and the caller gets an error that is neither a range
  error nor a failure of the status read.
\<close>

theorem nan_target_raises:
  "read_status session0 link0 = (Inr status0, link1) \<and>
   \<not> float_gt NaN (max_voltage session0) \<and> \<not> float_lt NaN (Fin 0) \<and>
   set_output session0 (Some NaN) None None None None link0 = (Inl FloatToIntError, link1)"
  using read_status_link0 write_frame_nan
  by (simp add: set_output_def session0_fields status0_fields float_lt_def)

subsection \<open>Read-modify-write\<close>

text \<open>
  Claim C8, evaluated on the code. The claim says that an omitted argument is filled from
  the status read just before, so that the written frame never changes a field the
  caller did not specify. The unit reports a current setting of 29 hundredths (register
  bytes \<open>1D 00\<close>). \<^verbatim>\<open>read_status\<close> turns it into the double \<^verbatim>\<open>29 / 100\<close>, and \<^verbatim>\<open>set_voltage(5.0)\<close>
  fills the omitted current from it; but \<^verbatim>\<open>int((29 / 100) * 100)\<close> is 28, so the frame it
  writes, and the unit acknowledges, carries the current word \<open>1C 00\<close>: the call lowers
  the current setting from 0.29 A to 0.28 A.
\<close>

theorem set_voltage_lowers_current:
  "slice 10 12 (slice 3 19 status_reply0) = [0x1D, 0x00] \<and>
   unpack_word session0 [0x1D, 0x00] = Inr 29 \<and>
   pack_word session0 28 = Inr [0x1C, 0x00] \<and>
   read_status session0 link0 = (Inr status0, link1) \<and>
   st_set_current status0 = int_truediv 29 (10 ^ 2) \<and>
   float_mul_int (st_set_current status0) (10 ^ 2) = Fin (8162774324609023 / 281474976710656) \<and>
   py_int (float_mul_int (st_set_current status0) (10 ^ 2)) = Inr 28 \<and>
   set_voltage session0 (Fin 5) link0
     = (Inr True,
        \<lparr>rx = [],
         tx = [[0x00, 0x03, 0x00, 0x00, 0x08, 0x00, 0x43, 0xDB],
               [0x00, 0x10, 0x00, 0x00, 0x03, 0x00, 0x06, 0x00, 0x00, 0xF4, 0x01, 0x1C, 0x00,
                0xDB, 0xD4]]\<rparr>)"
proof -
  have a: "slice 10 12 (slice 3 19 status_reply0) = [0x1D, 0x00]" by code_simp
  have a1: "unpack_word session0 [0x1D, 0x00] = Inr 29" by code_simp
  have a2: "pack_word session0 28 = Inr [0x1C, 0x00]" by code_simp
  have b: "int_truediv 29 (10 ^ 2) = Fin (5224175567749775 / 18014398509481984)"
    by code_simp
  have c: "float_mul_int (Fin (5224175567749775 / 18014398509481984)) (10 ^ 2)
     = Fin (8162774324609023 / 281474976710656)"
    by code_simp
  have d: "py_int (Fin (8162774324609023 / 281474976710656)) = Inr 28" by code_simp
  have e: "set_voltage session0 (Fin 5) link0
     = (Inr True,
        \<lparr>rx = [],
         tx = [[0x00, 0x03, 0x00, 0x00, 0x08, 0x00, 0x43, 0xDB],
               [0x00, 0x10, 0x00, 0x00, 0x03, 0x00, 0x06, 0x00, 0x00, 0xF4, 0x01, 0x1C, 0x00,
                0xDB, 0xD4]]\<rparr>)"
    using read_status_link0 write_frame_29 send_write_ack
    by (simp add: set_voltage_def set_output_def session0_fields status0_fields float_lt_def
        link1_def write_ack0_def)
  from a a1 a2 b c d e read_status_link0 show ?thesis
    by (simp only: status0_fields simp_thms)
qed

end
